theory Spec2Isabelle
  imports Main "HOL-Library.Sublist"
begin

section \<open>Python strings\<close>

text \<open>
  A Python \<open>str\<close> is a sequence of Unicode code points and \<open>len\<close> counts code points,
  so a string is a list of code points. Literals of the source that are plain ASCII are
  written with \<open>U\<close>; the emoji of the source's literals are given by their code points.
\<close>

type_synonym ustr = "nat list"

definition U :: "string \<Rightarrow> ustr" where
  "U s = map of_char s"

section \<open>What the runtime and the two modules supply\<close>

text \<open>
  The modules \<open>api\<close> and \<open>app\<close> are collaborators of \<open>main.py\<close>; what they compute is a
  parameter of the model. \<open>answer_semantic_question\<close> stands for
  \<open>api.answer_semantic_question(question, df_api, model_api, threshold=0.60)\<close> on the
  table and model loaded at start, \<open>None\<close> being Python's \<open>None\<close>; \<open>hostel_chatbot\<close>
  returns the triple of answer, link and image, each of which may be \<open>None\<close>.

  The Unicode case tables that \<open>str.lower()\<close> reads are a parameter as well:
  \<open>lower_table e before c after\<close> is what the code point \<open>c\<close> becomes when \<open>before\<close>
  precedes it and \<open>after\<close> follows it (the lowering of U+03A3 depends on them), the empty
  list standing for a code point that stays as it is.
\<close>

type_synonym case_table = "ustr \<Rightarrow> nat \<Rightarrow> ustr \<Rightarrow> ustr"

record env =
  lower_table :: case_table
  preprocess_text :: "ustr \<Rightarrow> ustr"
  answer_semantic_question :: "ustr \<Rightarrow> ustr option"
  hostel_chatbot :: "ustr \<Rightarrow> ustr option \<times> ustr option \<times> ustr option"

section \<open>String operations\<close>

text \<open>
  \<open>str.strip()\<close> and \<open>str.split()\<close> without arguments work on the code points for which
  \<open>str.isspace\<close> holds: tab to carriage return, the four separators 28 to 31, space, and
  the Unicode spaces beyond ASCII.
\<close>

definition isspace :: "nat \<Rightarrow> bool" where
  "isspace c \<longleftrightarrow>
     (9 \<le> c \<and> c \<le> 13) \<or> (28 \<le> c \<and> c \<le> 32) \<or> c = 133 \<or> c = 160 \<or> c = 5760 \<or>
     (8192 \<le> c \<and> c \<le> 8202) \<or> c = 8232 \<or> c = 8233 \<or> c = 8239 \<or> c = 8287 \<or> c = 12288"

definition py_strip :: "ustr \<Rightarrow> ustr" where
  "py_strip s = rev (dropWhile isspace (rev (dropWhile isspace s)))"

text \<open>
  \<open>str.lower()\<close> goes through the string and lowers each code point where it stands.
  On ASCII the letters A to Z go to a to z and every other code point stays. U+0130
  goes to the two code points \<open>i\<close> and U+0307: it is the one code point whose lowering is
  longer than itself. Every other code point is looked up in the table.
\<close>

definition lower_at :: "case_table \<Rightarrow> ustr \<Rightarrow> nat \<Rightarrow> ustr \<Rightarrow> ustr" where
  "lower_at t before c after =
     (if 65 \<le> c \<and> c \<le> 90 then [c + 32]
      else if c < 128 then [c]
      else if c = 304 then [105, 775]
      else (case t before c after of [] \<Rightarrow> [c] | x # xs \<Rightarrow> x # xs))"

fun lower_from :: "case_table \<Rightarrow> ustr \<Rightarrow> ustr \<Rightarrow> ustr" where
  "lower_from t before [] = []"
| "lower_from t before (c # cs) = lower_at t before c cs @ lower_from t (before @ [c]) cs"

definition py_lower :: "case_table \<Rightarrow> ustr \<Rightarrow> ustr" where
  "py_lower t s = lower_from t [] s"

text \<open>
  \<open>str.split()\<close>: the maximal runs of non-space code points, in order. \<open>cur\<close> is the
  run being read.
\<close>

fun split_from :: "ustr \<Rightarrow> ustr \<Rightarrow> ustr list" where
  "split_from cur [] = (if cur = [] then [] else [cur])"
| "split_from cur (c # cs) =
     (if isspace c then (if cur = [] then split_from [] cs else cur # split_from [] cs)
      else split_from (cur @ [c]) cs)"

definition py_split :: "ustr \<Rightarrow> ustr list" where
  "py_split s = split_from [] s"

text \<open>\<open>w in s\<close> on strings: \<open>w\<close> occurs in \<open>s\<close> as a contiguous run.\<close>

fun py_in :: "ustr \<Rightarrow> ustr \<Rightarrow> bool" where
  "py_in w [] \<longleftrightarrow> w = []"
| "py_in w (c # cs) \<longleftrightarrow> prefix w (c # cs) \<or> py_in w cs"

text \<open>\<open>sep.join(parts)\<close>.\<close>

fun join :: "ustr \<Rightarrow> ustr list \<Rightarrow> ustr" where
  "join sep [] = []"
| "join sep [p] = p"
| "join sep (p # q # ps) = p @ sep @ join sep (q # ps)"

section \<open>The calls of a run\<close>

text \<open>
  The calls a run makes, in order: entering \<open>api_answer\<close>, and each call into the two
  modules.
\<close>

datatype call =
    Preprocess_text ustr
  | Api_answer ustr
  | Answer_semantic_question ustr
  | Hostel_chatbot ustr

section \<open>Greeting and answer filters\<close>

definition greetings :: "ustr list" where
  "greetings = [U ''hi'', U ''hello'', U ''hey'', U ''hai'',
                U ''good morning'', U ''good afternoon'', U ''good evening'']"

definition is_greeting :: "env \<Rightarrow> ustr \<Rightarrow> bool" where
  "is_greeting e text = (py_lower (lower_table e) (py_strip text) \<in> set greetings)"

text \<open>The comprehension \<open>[w for w in s.split() if len(w) > 2]\<close>.\<close>

definition long_words :: "ustr \<Rightarrow> ustr list" where
  "long_words s = filter (\<lambda>w. length w > 2) (py_split s)"

text \<open>
  \<open>is_meaningful_answer(answer, user_query=None)\<close>. The test \<open>if user_query:\<close> holds for a
  string that is not empty.
\<close>

definition is_meaningful_answer :: "env \<Rightarrow> ustr option \<Rightarrow> ustr option \<Rightarrow> bool" where
  "is_meaningful_answer e answer user_query =
     (case answer of
        None \<Rightarrow> False
      | Some a \<Rightarrow>
          (let answer_str = py_strip a in
           if answer_str = [] then False
           else if length answer_str \<le> 3 then False
           else (case user_query of
                   None \<Rightarrow> True
                 | Some q \<Rightarrow>
                     if q = [] then True
                     else (let query_words = long_words (py_lower (lower_table e) q) in
                           if query_words = [] then False
                           else if \<not> list_ex
                                       (\<lambda>word. py_in word (py_lower (lower_table e) answer_str))
                                       query_words
                             then False
                           else True))))"

definition api_failure_phrases :: "ustr list" where
  "api_failure_phrases =
     [U ''sorry'', U ''couldn'' @ [39] @ U ''t understand'', U ''not understand'',
      U ''no data'', U ''not available'']"

text \<open>
  \<open>api_answer(question)\<close>, with the calls it makes. The count \<open>overlap\<close> is the number of
  query words that occur in the lowered answer.
\<close>

definition api_answer :: "env \<Rightarrow> ustr \<Rightarrow> ustr option \<times> call list" where
  "api_answer e question =
     (if is_greeting e question then (None, [Api_answer question])
      else
        (let result = answer_semantic_question e question;
             calls = [Api_answer question, Answer_semantic_question question] in
         case result of
           None \<Rightarrow> (None, calls)
         | Some r \<Rightarrow>
             (let answer_str = py_lower (lower_table e) (py_strip r) in
              if list_ex (\<lambda>x. py_in x answer_str) api_failure_phrases then (None, calls)
              else
                (let query_words = long_words (py_lower (lower_table e) question) in
                 if query_words = [] then (None, calls)
                 else
                   (let overlap = length (filter (\<lambda>w. py_in w answer_str) query_words) in
                    if overlap = 0 then (None, calls) else (Some r, calls))))))"

definition invalid_phrases :: "ustr list" where
  "invalid_phrases =
     [U ''sorry'', U ''couldn'' @ [39] @ U ''t understand'', U ''could not understand'',
      U ''not understand'']"

definition is_valid_app_answer :: "env \<Rightarrow> ustr option \<Rightarrow> bool" where
  "is_valid_app_answer e answer =
     (case answer of
        None \<Rightarrow> False
      | Some a \<Rightarrow>
          (let answer_str = py_lower (lower_table e) (py_strip a) in
           if answer_str = [] then False
           else \<not> list_ex (\<lambda>phrase. py_in phrase answer_str) invalid_phrases))"

section \<open>The composer\<close>

definition greeting_response :: ustr where
  "greeting_response = [128075] @ U '' Hello! How can I help you with hostel information?''"

definition fallback :: ustr where
  "fallback = [10060] @ U '' Sorry, I couldn'' @ [39] @
     U ''t find an answer. Please ask more clearly or provide more details.''"

definition link_prefix :: ustr where
  "link_prefix = [128279, 32]"

definition image_prefix :: ustr where
  "image_prefix = [128444, 65039, 32]"

definition paragraph_sep :: ustr where
  "paragraph_sep = [10, 10]"

text \<open>\<open>str(x) if x else ""\<close>.\<close>

definition str_or_empty :: "ustr option \<Rightarrow> ustr" where
  "str_or_empty x = (case x of None \<Rightarrow> [] | Some s \<Rightarrow> s)"

text \<open>
  Lines 146 to 148 of \<open>unified_chatbot\<close>: the answer of \<open>api_answer\<close> on the normalized
  query, set to \<open>None\<close> when \<open>is_meaningful_answer\<close> rejects it.
\<close>

definition filtered_api :: "env \<Rightarrow> ustr \<Rightarrow> ustr option" where
  "filtered_api e normalized_query =
     (let api_ans = fst (api_answer e normalized_query) in
      if \<not> is_meaningful_answer e api_ans (Some normalized_query) then None else api_ans)"

text \<open>
  Lines 151 to 165: the triple of \<open>app.hostel_chatbot\<close> as strings, all three emptied when
  the answer is not valid, not meaningful, or the query has no word longer than 2.
\<close>

definition filtered_app :: "env \<Rightarrow> ustr \<Rightarrow> ustr \<times> ustr \<times> ustr" where
  "filtered_app e normalized_query =
     (let user_query_words = long_words normalized_query;
          (a, l, i) = hostel_chatbot e normalized_query;
          app_ans = str_or_empty a;
          app_link = str_or_empty l;
          app_img = str_or_empty i in
      if \<not> is_valid_app_answer e (Some app_ans)
         \<or> \<not> is_meaningful_answer e (Some app_ans) (Some normalized_query)
         \<or> user_query_words = []
      then ([], [], [])
      else (app_ans, app_link, app_img))"

text \<open>Lines 168 to 178: the paragraphs, in the order they are appended.\<close>

definition response_parts :: "ustr option \<Rightarrow> ustr \<times> ustr \<times> ustr \<Rightarrow> ustr list" where
  "response_parts api_ans app =
     (case app of (app_ans, app_link, app_img) \<Rightarrow>
        (case api_ans of None \<Rightarrow> [] | Some a \<Rightarrow> (if a \<noteq> [] then [a] else []))
        @ (if app_ans \<noteq> [] then
             [app_ans]
             @ (if app_link \<noteq> [] then [link_prefix @ app_link] else [])
             @ (if app_img \<noteq> [] then [image_prefix @ app_img] else [])
           else []))"

text \<open>Lines 181 to 184.\<close>

definition compose :: "ustr list \<Rightarrow> ustr" where
  "compose parts = (if parts = [] then fallback else join paragraph_sep parts)"

definition unified_chatbot :: "env \<Rightarrow> ustr \<Rightarrow> ustr \<times> call list" where
  "unified_chatbot e user_query =
     (if is_greeting e user_query then (greeting_response, [])
      else
        (let normalized_query = preprocess_text e user_query;
             api_ans = filtered_api e normalized_query;
             app = filtered_app e normalized_query in
         (compose (response_parts api_ans app),
          [Preprocess_text user_query] @ snd (api_answer e normalized_query)
          @ [Hostel_chatbot normalized_query])))"

text \<open>
  The two tests of \<open>unified_chatbot\<close> that decide whether an answer is kept: line 147 for
  the answer of \<open>api_answer\<close>, lines 158 to 162 for the answer of \<open>app.hostel_chatbot\<close>.
\<close>

definition api_accepted :: "env \<Rightarrow> ustr \<Rightarrow> bool" where
  "api_accepted e normalized_query =
     is_meaningful_answer e (fst (api_answer e normalized_query)) (Some normalized_query)"

definition app_accepted :: "env \<Rightarrow> ustr \<Rightarrow> bool" where
  "app_accepted e normalized_query =
     (let app_ans = str_or_empty (fst (hostel_chatbot e normalized_query)) in
      \<not> (\<not> is_valid_app_answer e (Some app_ans)
         \<or> \<not> is_meaningful_answer e (Some app_ans) (Some normalized_query)
         \<or> long_words normalized_query = []))"

section \<open>The chat function\<close>

record turn =
  role :: ustr
  content :: ustr

text \<open>
  \<open>chat(user_message, history)\<close> returns the history and the new value of the input box,
  here with the calls of the run. \<open>history or []\<close> reads an absent history as the empty
  one.
\<close>

definition chat :: "env \<Rightarrow> ustr \<Rightarrow> turn list option \<Rightarrow> (turn list \<times> ustr) \<times> call list" where
  "chat e user_message history =
     (let h = (case history of None \<Rightarrow> [] | Some hs \<Rightarrow> hs) in
      if py_strip user_message = [] then ((h, []), [])
      else
        (let (bot_text, calls) = unified_chatbot e user_message in
         ((h @ [\<lparr>role = U ''user'', content = user_message\<rparr>,
                \<lparr>role = U ''assistant'', content = bot_text\<rparr>], []), calls)))"

section \<open>Example collaborators\<close>

text \<open>
  A small table for both modules, on which the functions above are evaluated: a question
  both modules answer, one the remote table answers with an apology, one only the remote
  table answers, and one made of short words that both would answer. Its case table is
  the one of Latin-1, and it normalizes a query by lowering it.
\<close>

definition latin1_table :: case_table where
  "latin1_table before c after =
     (if (192 \<le> c \<and> c \<le> 214) \<or> (216 \<le> c \<and> c \<le> 222) then [c + 32] else [])"

definition demo_env :: env where
  "demo_env =
     \<lparr>lower_table = latin1_table,
      preprocess_text = py_lower latin1_table,
      answer_semantic_question = (\<lambda>q.
        if q = U ''mess timing'' then Some (U ''Mess timing is 8 am'')
        else if q = U ''fees'' then Some (U ''I am sorry, no fees data'')
        else if q = U ''room rent'' then Some (U ''Room rent is 5000'')
        else if q = U ''is it'' then Some (U ''Yes it is open'')
        else None),
      hostel_chatbot = (\<lambda>q.
        if q = U ''mess timing''
          then (Some (U ''The mess opens at 8''), Some (U ''http://h/mess''), None)
        else if q = U ''room rent''
          then (Some (U ''Sorry, I could not understand''), Some (U ''http://h/rent''),
                Some (U ''rent.png''))
        else if q = U ''is it''
          then (Some (U ''is it open''), Some (U ''http://h/open''), Some (U ''open.png''))
        else (None, None, None))\<rparr>"


section \<open>Facts about the string operations\<close>

lemma U_simps [simp]: "U [] = []" "U (c # cs) = of_char c # U cs"
  by (simp_all add: U_def)

lemma py_in_sublist: "py_in w s \<longleftrightarrow> sublist w s"
  by (induction s) (simp_all add: sublist_Cons_right)

text \<open>Stripping keeps every run that starts and ends with a code point that is no space.\<close>

lemma sublist_strip:
  assumes "sublist w s" "w \<noteq> []" "\<not> isspace (hd w)" "\<not> isspace (last w)"
  shows "sublist w (py_strip s)"
proof -
  from assms(1) obtain p r where s: "s = p @ w @ r" by (auto simp: sublist_def)
  have "\<exists>p'. dropWhile isspace s = p' @ w @ r"
  proof (cases "\<forall>x\<in>set p. isspace x")
    case True
    then have "dropWhile isspace s = dropWhile isspace (w @ r)" by (simp add: s dropWhile_append)
    also have "\<dots> = w @ r" using assms(2,3) by (cases w) simp_all
    finally show ?thesis by (intro exI [of _ "[]"]) simp
  next
    case False
    then have "dropWhile isspace s = dropWhile isspace p @ w @ r"
      by (auto simp add: s dropWhile_append)
    then show ?thesis by blast
  qed
  then obtain p' where l: "dropWhile isspace s = p' @ w @ r" by blast
  have "\<exists>r'. dropWhile isspace (rev (p' @ w @ r)) = r' @ rev w @ rev p'"
  proof (cases "\<forall>x\<in>set r. isspace x")
    case True
    then have "dropWhile isspace (rev (p' @ w @ r)) = dropWhile isspace (rev w @ rev p')"
      by (simp add: dropWhile_append)
    also have "\<dots> = rev w @ rev p'" using assms(2,4) by (cases w rule: rev_cases) simp_all
    finally show ?thesis by (intro exI [of _ "[]"]) simp
  next
    case False
    then have "dropWhile isspace (rev (p' @ w @ r)) = dropWhile isspace (rev r) @ rev w @ rev p'"
      by (auto simp add: dropWhile_append)
    then show ?thesis by blast
  qed
  then obtain r' where "dropWhile isspace (rev (p' @ w @ r)) = r' @ rev w @ rev p'" by blast
  then have "py_strip s = p' @ w @ rev r'" by (simp add: py_strip_def l)
  then show ?thesis by (auto simp: sublist_def)
qed

lemma lower_at_nonempty: "lower_at t before c after \<noteq> []"
  by (simp add: lower_at_def split: list.split)

lemma lower_from_Nil_iff: "lower_from t before s = [] \<longleftrightarrow> s = []"
  by (cases s) (simp_all add: lower_at_nonempty)

lemma py_lower_Nil_iff: "py_lower t s = [] \<longleftrightarrow> s = []"
  by (simp add: py_lower_def lower_from_Nil_iff)

text \<open>On ASCII the table is not read.\<close>

lemma lower_from_ascii:
  "list_all (\<lambda>c. c < 128) s \<Longrightarrow>
   lower_from t before s = map (\<lambda>c. if 65 \<le> c \<and> c \<le> 90 then c + 32 else c) s"
  by (induction s arbitrary: before) (simp_all add: lower_at_def)

lemma py_lower_ascii:
  "list_all (\<lambda>c. c < 128) s \<Longrightarrow>
   py_lower t s = map (\<lambda>c. if 65 \<le> c \<and> c \<le> 90 then c + 32 else c) s"
  by (simp add: py_lower_def lower_from_ascii)

text \<open>
  A run of ASCII code points that are no capital letters is lowered to itself wherever
  it stands, so lowering keeps it as a run of the string.
\<close>

lemma lower_from_append:
  "\<exists>x. lower_from t before (p @ s) = x @ lower_from t (before @ p) s"
proof (induction p arbitrary: before)
  case Nil
  show ?case by simp
next
  case (Cons c p)
  from Cons.IH [of "before @ [c]"] obtain x
    where "lower_from t (before @ [c]) (p @ s) = x @ lower_from t ((before @ [c]) @ p) s"
    by blast
  then have "lower_from t before ((c # p) @ s) =
               (lower_at t before c (p @ s) @ x) @ lower_from t (before @ c # p) s"
    by simp
  then show ?case by blast
qed

lemma lower_from_plain:
  "\<forall>c\<in>set w. c < 65 \<or> (90 < c \<and> c < 128) \<Longrightarrow>
   lower_from t before (w @ r) = w @ lower_from t (before @ w) r"
proof (induction w arbitrary: before)
  case Nil
  show ?case by simp
next
  case (Cons c w)
  then have c: "lower_at t before c (w @ r) = [c]" by (auto simp: lower_at_def)
  from Cons have "lower_from t (before @ [c]) (w @ r) = w @ lower_from t ((before @ [c]) @ w) r"
    by simp
  with c show ?case by simp
qed

lemma sublist_lower_plain:
  assumes "sublist w s" and "\<forall>c\<in>set w. c < 65 \<or> (90 < c \<and> c < 128)"
  shows "sublist w (py_lower t s)"
proof -
  from assms(1) obtain p r where s: "s = p @ w @ r" by (auto simp: sublist_def)
  obtain x where "lower_from t [] (p @ w @ r) = x @ lower_from t ([] @ p) (w @ r)"
    using lower_from_append [of t "[]" p "w @ r"] by blast
  then have "py_lower t s = x @ w @ lower_from t (p @ w) r"
    using lower_from_plain [OF assms(2), of t p r] by (simp add: py_lower_def s)
  then show ?thesis unfolding sublist_def by blast
qed

lemma sorry_kept:
  assumes "py_in (U ''sorry'') a"
  shows "py_in (U ''sorry'') (py_lower t (py_strip a))"
proof -
  have "sublist (U ''sorry'') (py_strip a)"
    using assms by (intro sublist_strip) (simp_all add: py_in_sublist isspace_def)
  then have "sublist (U ''sorry'') (py_lower t (py_strip a))"
    by (rule sublist_lower_plain) simp
  then show ?thesis by (simp only: py_in_sublist)
qed


section \<open>Facts about the filters\<close>

lemma meaningful_length:
  "is_meaningful_answer e (Some a) uq \<Longrightarrow> 3 < length (py_strip a)"
  by (simp add: is_meaningful_answer_def Let_def split: if_splits)

lemma meaningful_None: "\<not> is_meaningful_answer e None uq"
  by (simp add: is_meaningful_answer_def)

lemma filtered_api_accepted:
  "filtered_api e nq = (if api_accepted e nq then fst (api_answer e nq) else None)"
  by (simp add: filtered_api_def api_accepted_def Let_def)

lemma filtered_app_accepted:
  "filtered_app e nq =
     (if app_accepted e nq
      then (str_or_empty (fst (hostel_chatbot e nq)),
            str_or_empty (fst (snd (hostel_chatbot e nq))),
            str_or_empty (snd (snd (hostel_chatbot e nq))))
      else ([], [], []))"
  by (cases "hostel_chatbot e nq") (simp add: filtered_app_def app_accepted_def Let_def)

lemma filtered_api_Some:
  "filtered_api e nq = Some a \<Longrightarrow> is_meaningful_answer e (Some a) (Some nq)"
  by (simp add: filtered_api_def Let_def split: if_splits)

lemma filtered_api_nonempty: "filtered_api e nq = Some a \<Longrightarrow> a \<noteq> []"
  using meaningful_length [of e a "Some nq"] filtered_api_Some [of e nq a]
  by (auto simp: py_strip_def)

lemma app_accepted_nonempty:
  "app_accepted e nq \<Longrightarrow> str_or_empty (fst (hostel_chatbot e nq)) \<noteq> []"
  using meaningful_length [of e "str_or_empty (fst (hostel_chatbot e nq))" "Some nq"]
  by (auto simp: app_accepted_def Let_def py_strip_def)

lemma unified_chatbot_not_greeting:
  "\<not> is_greeting e q \<Longrightarrow>
   fst (unified_chatbot e q) =
     compose (response_parts (filtered_api e (preprocess_text e q))
                             (filtered_app e (preprocess_text e q)))"
  by (simp add: unified_chatbot_def Let_def)

lemma response_parts_filtered:
  "response_parts (filtered_api e nq) (filtered_app e nq) =
     (case filtered_api e nq of None \<Rightarrow> [] | Some a \<Rightarrow> [a]) @
     (if app_accepted e nq then
        [str_or_empty (fst (hostel_chatbot e nq))]
        @ (if str_or_empty (fst (snd (hostel_chatbot e nq))) \<noteq> []
           then [link_prefix @ str_or_empty (fst (snd (hostel_chatbot e nq)))] else [])
        @ (if str_or_empty (snd (snd (hostel_chatbot e nq))) \<noteq> []
           then [image_prefix @ str_or_empty (snd (snd (hostel_chatbot e nq)))] else [])
      else [])"
proof -
  have api: "(case filtered_api e nq of None \<Rightarrow> [] | Some a \<Rightarrow> (if a \<noteq> [] then [a] else []))
               = (case filtered_api e nq of None \<Rightarrow> [] | Some a \<Rightarrow> [a])"
    using filtered_api_nonempty [of e nq] by (cases "filtered_api e nq") simp_all
  show ?thesis
  proof (cases "app_accepted e nq")
    case True
    with app_accepted_nonempty [of e nq] show ?thesis
      by (simp add: response_parts_def filtered_app_accepted api)
  next
    case False
    then show ?thesis by (simp add: response_parts_def filtered_app_accepted api)
  qed
qed

section \<open>The example collaborators, evaluated\<close>

text \<open>
  The values of the string operations, the filters and the two kept answers on the
  queries of \<open>demo_env\<close>.
\<close>

lemmas str_eval = py_lower_ascii py_strip_def isspace_def py_split_def long_words_def

lemma demo_table: "lower_table demo_env = latin1_table"
  by (simp add: demo_env_def)

lemma demo_preprocess: "preprocess_text demo_env = py_lower (lower_table demo_env)"
  by (simp add: demo_env_def)

text \<open>A capital letter of Latin-1 is lowered by the table of \<open>demo_env\<close>.\<close>

lemma lower_ecole: "py_lower (lower_table demo_env) ([201] @ U ''COLE'') = [233] @ U ''cole''"
  by (simp add: demo_table py_lower_def lower_at_def latin1_table_def)

lemma not_greeting_asdfgh: "\<not> is_greeting demo_env (U ''asdfgh'')"
  by (simp add: is_greeting_def greetings_def str_eval)

lemma lower_asdfgh: "py_lower (lower_table demo_env) (U ''asdfgh'') = U ''asdfgh''"
  by (simp add: str_eval)

lemma demo_api_asdfgh: "\<not> api_accepted demo_env (U ''asdfgh'')"
  using not_greeting_asdfgh
  by (simp add: api_accepted_def api_answer_def demo_env_def meaningful_None)

lemma demo_app_asdfgh: "\<not> app_accepted demo_env (U ''asdfgh'')"
  by (simp add: app_accepted_def demo_env_def str_or_empty_def is_valid_app_answer_def str_eval)

lemma not_greeting_mess: "\<not> is_greeting demo_env (U ''mess timing'')"
  by (simp add: is_greeting_def greetings_def str_eval)

lemma words_mess:
  "long_words (py_lower (lower_table demo_env) (U ''mess timing'')) = [U ''mess'', U ''timing'']"
  by (simp add: str_eval)

lemma words_mess_plain: "long_words (U ''mess timing'') = [U ''mess'', U ''timing'']"
  by (simp add: str_eval)

lemma api_strip_mess:
  "py_lower (lower_table demo_env) (py_strip (U ''Mess timing is 8 am'')) = U ''mess timing is 8 am''"
  by (simp add: str_eval)

lemma strip_mess: "py_strip (U ''Mess timing is 8 am'') = U ''Mess timing is 8 am''"
  by (simp add: str_eval)

lemma in_mess_api: "py_in (U ''mess'') (U ''mess timing is 8 am'')"
  by simp

lemma no_phrase_mess_api:
  "\<not> list_ex (\<lambda>x. py_in x (U ''mess timing is 8 am'')) api_failure_phrases"
  by (simp add: api_failure_phrases_def)

lemma demo_api_answer_mess:
  "fst (api_answer demo_env (U ''mess timing'')) = Some (U ''Mess timing is 8 am'')"
proof -
  have r: "answer_semantic_question demo_env (U ''mess timing'') = Some (U ''Mess timing is 8 am'')"
    by (simp add: demo_env_def)
  show ?thesis
    unfolding api_answer_def Let_def r option.case api_strip_mess words_mess
    using not_greeting_mess no_phrase_mess_api in_mess_api by simp
qed

lemma meaningful_mess_api:
  "is_meaningful_answer demo_env (Some (U ''Mess timing is 8 am'')) (Some (U ''mess timing''))"
proof -
  have l: "py_lower (lower_table demo_env) (U ''Mess timing is 8 am'') = U ''mess timing is 8 am''"
    by (simp add: str_eval)
  show ?thesis
    unfolding is_meaningful_answer_def Let_def option.case strip_mess words_mess l
    using in_mess_api by simp
qed

lemma demo_api_accepted_mess: "api_accepted demo_env (U ''mess timing'')"
  by (simp only: api_accepted_def demo_api_answer_mess meaningful_mess_api)

lemma demo_filtered_api_mess:
  "filtered_api demo_env (U ''mess timing'') = Some (U ''Mess timing is 8 am'')"
  by (simp only: filtered_api_accepted demo_api_accepted_mess demo_api_answer_mess if_True)

lemma demo_hostel_mess:
  "hostel_chatbot demo_env (U ''mess timing'') =
     (Some (U ''The mess opens at 8''), Some (U ''http://h/mess''), None)"
  by (simp add: demo_env_def)

lemma strip_mess_app: "py_strip (U ''The mess opens at 8'') = U ''The mess opens at 8''"
  by (simp add: str_eval)

lemma lower_mess_app:
  "py_lower (lower_table demo_env) (U ''The mess opens at 8'') = U ''the mess opens at 8''"
  by (simp add: str_eval)

lemma in_mess_app: "py_in (U ''mess'') (U ''the mess opens at 8'')"
  by simp

lemma no_phrase_mess_app:
  "\<not> list_ex (\<lambda>x. py_in x (U ''the mess opens at 8'')) invalid_phrases"
  by (simp add: invalid_phrases_def)

lemma valid_mess_app: "is_valid_app_answer demo_env (Some (U ''The mess opens at 8''))"
  unfolding is_valid_app_answer_def Let_def option.case strip_mess_app lower_mess_app
  using no_phrase_mess_app by simp

lemma meaningful_mess_app:
  "is_meaningful_answer demo_env (Some (U ''The mess opens at 8'')) (Some (U ''mess timing''))"
  unfolding is_meaningful_answer_def Let_def option.case strip_mess_app words_mess lower_mess_app
  using in_mess_app by simp

lemma demo_app_accepted_mess: "app_accepted demo_env (U ''mess timing'')"
  unfolding app_accepted_def Let_def demo_hostel_mess fst_conv str_or_empty_def option.case
    words_mess_plain
  using valid_mess_app meaningful_mess_app by simp

lemma demo_filtered_app_mess:
  "filtered_app demo_env (U ''mess timing'') =
     (U ''The mess opens at 8'', U ''http://h/mess'', [])"
  by (simp only: filtered_app_accepted demo_app_accepted_mess demo_hostel_mess if_True
        fst_conv snd_conv str_or_empty_def option.case)

lemma not_greeting_Mess: "\<not> is_greeting demo_env (U ''Mess Timing'')"
  by (simp add: is_greeting_def greetings_def str_eval)

lemma lower_Mess: "py_lower (lower_table demo_env) (U ''Mess Timing'') = U ''mess timing''"
  by (simp add: str_eval)

lemma strip_blank: "py_strip (U ''  '') = []"
  by (simp add: str_eval)

lemma strip_ok: "py_strip (U ''ok'') = U ''ok''"
  by (simp add: str_eval)

lemma strip_ok_padded: "py_strip (U '' ok '') = U ''ok''"
  by (simp add: str_eval)

lemma no_phrase_ok:
  "\<not> list_ex (\<lambda>p. py_in p (py_lower (lower_table demo_env) (U ''ok''))) invalid_phrases"
  by (simp add: invalid_phrases_def str_eval)

lemma off_topic_rent:
  "\<not> list_ex (\<lambda>w. py_in w (py_lower (lower_table demo_env) (py_strip (U ''Room rent is 5000''))))
       (long_words (py_lower (lower_table demo_env) (U ''mess timing'')))"
proof -
  have l: "py_lower (lower_table demo_env) (py_strip (U ''Room rent is 5000'')) = U ''room rent is 5000''"
    by (simp add: str_eval)
  show ?thesis unfolding l words_mess by simp
qed

lemma in_sorry_fees: "py_in (U ''sorry'') (U ''I am sorry, no fees data'')"
  by simp

lemma demo_semantic_fees:
  "answer_semantic_question demo_env (U ''fees'') = Some (U ''I am sorry, no fees data'')"
  by (simp add: demo_env_def)






lemma strip_blank3: "py_strip (U ''   '') = []"
  by (simp add: str_eval)

lemma strip_hi: "py_strip (U ''hi'') \<noteq> []"
  by (simp add: str_eval)

lemma demo_greeting_hi:
  "fst (unified_chatbot demo_env (U ''hi'')) =
     [128075] @ U '' Hello! How can I help you with hostel information?''"
proof -
  have "is_greeting demo_env (U ''hi'')" by (simp add: is_greeting_def greetings_def str_eval)
  then show ?thesis by (simp only: unified_chatbot_def if_True fst_conv greeting_response_def)
qed

lemma not_greeting_rent: "\<not> is_greeting demo_env (U ''room rent'')"
  by (simp add: is_greeting_def greetings_def str_eval)

lemma lower_rent: "py_lower (lower_table demo_env) (U ''room rent'') = U ''room rent''"
  by (simp add: str_eval)

lemma words_rent: "long_words (U ''room rent'') = [U ''room'', U ''rent'']"
  by (simp add: str_eval)

lemma demo_hostel_rent:
  "hostel_chatbot demo_env (U ''room rent'') =
     (Some (U ''Sorry, I could not understand''), Some (U ''http://h/rent''),
      Some (U ''rent.png''))"
  by (simp add: demo_env_def)

lemma invalid_rent_app:
  "\<not> is_valid_app_answer demo_env (Some (U ''Sorry, I could not understand''))"
proof -
  have l: "py_lower (lower_table demo_env) (py_strip (U ''Sorry, I could not understand'')) =
             U ''sorry, i could not understand''"
    by (simp add: str_eval)
  have "list_ex (\<lambda>p. py_in p (U ''sorry, i could not understand'')) invalid_phrases"
    by (simp add: invalid_phrases_def)
  then show ?thesis unfolding is_valid_app_answer_def Let_def option.case l by simp
qed

lemma demo_app_rejected_rent: "\<not> app_accepted demo_env (U ''room rent'')"
  unfolding app_accepted_def Let_def demo_hostel_rent fst_conv str_or_empty_def option.case
  using invalid_rent_app by simp

lemma demo_filtered_api_rent:
  "filtered_api demo_env (U ''room rent'') = Some (U ''Room rent is 5000'')"
proof -
  have r: "answer_semantic_question demo_env (U ''room rent'') = Some (U ''Room rent is 5000'')"
    by (simp add: demo_env_def)
  have st: "py_strip (U ''Room rent is 5000'') = U ''Room rent is 5000''"
    by (simp add: str_eval)
  have lo: "py_lower (lower_table demo_env) (U ''Room rent is 5000'') = U ''room rent is 5000''"
    by (simp add: str_eval)
  have w: "long_words (py_lower (lower_table demo_env) (U ''room rent'')) = [U ''room'', U ''rent'']"
    unfolding lower_rent by (rule words_rent)
  have i: "py_in (U ''room'') (U ''room rent is 5000'')" by simp
  have p: "\<not> list_ex (\<lambda>x. py_in x (U ''room rent is 5000'')) api_failure_phrases"
    by (simp add: api_failure_phrases_def)
  have a: "fst (api_answer demo_env (U ''room rent'')) = Some (U ''Room rent is 5000'')"
    unfolding api_answer_def Let_def r option.case st lo w
    using not_greeting_rent p i by simp
  have m: "is_meaningful_answer demo_env (Some (U ''Room rent is 5000'')) (Some (U ''room rent''))"
    unfolding is_meaningful_answer_def Let_def option.case st lo w using i by simp
  show ?thesis unfolding filtered_api_def Let_def a using m by simp
qed

section \<open>Greetings\<close>

text \<open>
  C1: for every input whose stripped, lowered form is one of the seven greetings,
  \<open>unified_chatbot\<close> returns the fixed greeting response and makes no call: it does not
  enter \<open>api_answer\<close> and calls neither module.
\<close>

theorem greeting_returns_fixed_response:
  assumes "py_lower (lower_table e) (py_strip q) \<in> {U ''hi'', U ''hello'', U ''hey'', U ''hai'',
             U ''good morning'', U ''good afternoon'', U ''good evening''}"
  shows "unified_chatbot e q =
           ([128075] @ U '' Hello! How can I help you with hostel information?'', [])"
  using assms by (simp add: unified_chatbot_def is_greeting_def greetings_def greeting_response_def)

text \<open>The input \<open>"  Hello "\<close>.\<close>

theorem greeting_returns_fixed_response_witness:
  "py_lower (lower_table demo_env) (py_strip (U ''  Hello '')) \<in> {U ''hi'', U ''hello'', U ''hey'', U ''hai'',
             U ''good morning'', U ''good afternoon'', U ''good evening''}
   \<and> unified_chatbot demo_env (U ''  Hello '') =
           ([128075] @ U '' Hello! How can I help you with hostel information?'', [])"
proof -
  have h: "py_lower (lower_table demo_env) (py_strip (U ''  Hello '')) = U ''hello''"
    by (simp add: str_eval)
  show ?thesis
    using greeting_returns_fixed_response [of demo_env "U ''  Hello ''"]
    unfolding h by blast
qed

section \<open>The two filters\<close>

text \<open>
  C2 as the spec states it gives both filters one shape, with a test of length in each.
  \<open>is_valid_app_answer\<close> has none: it accepts \<open>ok\<close>, of length 2.
\<close>

theorem valid_app_answer_accepts_short:
  "length (py_strip (U ''ok'')) \<le> 3 \<and> is_valid_app_answer demo_env (Some (U ''ok''))"
proof -
  have "is_valid_app_answer demo_env (Some (U ''ok''))"
    unfolding is_valid_app_answer_def Let_def option.case strip_ok
    using no_phrase_ok by (simp add: py_lower_Nil_iff)
  then show ?thesis unfolding strip_ok by simp
qed

text \<open>
  C2, as the code has it: \<open>is_meaningful_answer\<close> rejects \<open>None\<close>, an answer that is
  empty once stripped, an answer of stripped length at most 3 and, for a query that is
  not empty, an answer in which no word longer than 2 of the lowered query occurs.
  \<open>is_valid_app_answer\<close> rejects \<open>None\<close> and an answer that is empty once stripped, but
  has no test of length and takes no query: it accepts exactly the other answers that
  hold none of its four phrases. In \<open>unified_chatbot\<close> an answer of either source that is
  kept has passed \<open>is_meaningful_answer\<close> with the normalized query, the local one
  \<open>is_valid_app_answer\<close> as well.
\<close>

theorem filter_shapes:
  "\<not> is_meaningful_answer e None uq
   \<and> (py_strip a_blank = [] \<longrightarrow> \<not> is_meaningful_answer e (Some a_blank) uq)
   \<and> (length (py_strip a_short) \<le> 3 \<longrightarrow> \<not> is_meaningful_answer e (Some a_short) uq)
   \<and> (q \<noteq> []
        \<and> \<not> list_ex (\<lambda>w. py_in w (py_lower (lower_table e) (py_strip a_off)))
              (long_words (py_lower (lower_table e) q))
        \<longrightarrow> \<not> is_meaningful_answer e (Some a_off) (Some q))
   \<and> \<not> is_valid_app_answer e None
   \<and> (is_valid_app_answer e (Some a) \<longleftrightarrow>
        py_strip a \<noteq> []
        \<and> \<not> list_ex (\<lambda>p. py_in p (py_lower (lower_table e) (py_strip a))) invalid_phrases)
   \<and> (filtered_api e nq = Some b \<longrightarrow> is_meaningful_answer e (Some b) (Some nq))
   \<and> (fst (filtered_app e nq) \<noteq> [] \<longrightarrow>
        is_meaningful_answer e (Some (fst (filtered_app e nq))) (Some nq)
        \<and> is_valid_app_answer e (Some (fst (filtered_app e nq))))"
proof -
  have m: "\<not> is_meaningful_answer e None uq" by (rule meaningful_None)
  have b: "py_strip a_blank = [] \<longrightarrow> \<not> is_meaningful_answer e (Some a_blank) uq"
    by (simp add: is_meaningful_answer_def)
  have s: "length (py_strip a_short) \<le> 3 \<longrightarrow> \<not> is_meaningful_answer e (Some a_short) uq"
    by (simp add: is_meaningful_answer_def Let_def)
  have t: "q \<noteq> []
        \<and> \<not> list_ex (\<lambda>w. py_in w (py_lower (lower_table e) (py_strip a_off)))
              (long_words (py_lower (lower_table e) q))
        \<longrightarrow> \<not> is_meaningful_answer e (Some a_off) (Some q)"
    by (simp add: is_meaningful_answer_def Let_def)
  have v: "\<not> is_valid_app_answer e None" by (simp add: is_valid_app_answer_def)
  have w: "is_valid_app_answer e (Some a) \<longleftrightarrow>
        py_strip a \<noteq> []
        \<and> \<not> list_ex (\<lambda>p. py_in p (py_lower (lower_table e) (py_strip a))) invalid_phrases"
    by (simp add: is_valid_app_answer_def Let_def py_lower_Nil_iff)
  have f: "filtered_api e nq = Some b \<longrightarrow> is_meaningful_answer e (Some b) (Some nq)"
    using filtered_api_Some [of e nq b] by blast
  have g: "fst (filtered_app e nq) \<noteq> [] \<longrightarrow>
        is_meaningful_answer e (Some (fst (filtered_app e nq))) (Some nq)
        \<and> is_valid_app_answer e (Some (fst (filtered_app e nq)))"
    by (simp add: filtered_app_accepted app_accepted_def Let_def)
  from m b s t v w f g show ?thesis by blast
qed

text \<open>
  On a blank answer, a short one, one off the topic of the query, and the two answers
  to \<open>mess timing\<close>.
\<close>

theorem filter_shapes_witness:
  "py_strip (U ''  '') = []
   \<and> \<not> is_meaningful_answer demo_env (Some (U ''  '')) None
   \<and> length (py_strip (U ''ok'')) \<le> 3
   \<and> \<not> is_meaningful_answer demo_env (Some (U ''ok'')) None
   \<and> U ''mess timing'' \<noteq> []
   \<and> \<not> list_ex (\<lambda>w. py_in w (py_lower (lower_table demo_env) (py_strip (U ''Room rent is 5000''))))
          (long_words (py_lower (lower_table demo_env) (U ''mess timing'')))
   \<and> \<not> is_meaningful_answer demo_env (Some (U ''Room rent is 5000'')) (Some (U ''mess timing''))
   \<and> is_valid_app_answer demo_env (Some (U ''The mess opens at 8''))
   \<and> filtered_api demo_env (U ''mess timing'') = Some (U ''Mess timing is 8 am'')
   \<and> is_meaningful_answer demo_env (Some (U ''Mess timing is 8 am'')) (Some (U ''mess timing''))
   \<and> fst (filtered_app demo_env (U ''mess timing'')) \<noteq> []
   \<and> is_meaningful_answer demo_env (Some (fst (filtered_app demo_env (U ''mess timing''))))
        (Some (U ''mess timing''))
   \<and> is_valid_app_answer demo_env (Some (fst (filtered_app demo_env (U ''mess timing''))))"
proof -
  have s: "length (py_strip (U ''ok'')) \<le> 3" unfolding strip_ok by simp
  have q: "U ''mess timing'' \<noteq> []" by simp
  have f: "fst (filtered_app demo_env (U ''mess timing'')) \<noteq> []"
    unfolding demo_filtered_app_mess by simp
  show ?thesis
    using filter_shapes [where uq = None and a_blank = "U ''  ''" and a_short = "U ''ok''"
        and q = "U ''mess timing''" and a_off = "U ''Room rent is 5000''"
        and a = "U ''The mess opens at 8''" and e = demo_env and nq = "U ''mess timing''"
        and b = "U ''Mess timing is 8 am''"]
      strip_blank s q off_topic_rent demo_filtered_api_mess f valid_mess_app
    by blast
qed

text \<open>
  C3 as the spec states it has each of the three filters reject an answer with \<open>sorry\<close>
  in it. \<open>is_meaningful_answer\<close> accepts one that shares a word with the query.
\<close>

theorem meaningful_answer_accepts_sorry:
  "py_in (U ''sorry'') (U ''sorry, the mess is closed'')
   \<and> is_meaningful_answer demo_env (Some (U ''sorry, the mess is closed'')) (Some (U ''mess''))"
proof -
  have i: "py_in (U ''sorry'') (U ''sorry, the mess is closed'')" by simp
  have st: "py_strip (U ''sorry, the mess is closed'') = U ''sorry, the mess is closed''"
    by (simp add: str_eval)
  have lo: "py_lower (lower_table demo_env) (U ''sorry, the mess is closed'') = U ''sorry, the mess is closed''"
    by (simp add: str_eval)
  have w: "long_words (py_lower (lower_table demo_env) (U ''mess'')) = [U ''mess'']"
    by (simp add: str_eval)
  have m: "py_in (U ''mess'') (U ''sorry, the mess is closed'')" by simp
  have "is_meaningful_answer demo_env (Some (U ''sorry, the mess is closed'')) (Some (U ''mess''))"
    unfolding is_meaningful_answer_def Let_def option.case st lo w using m by simp
  with i show ?thesis by blast
qed

text \<open>
  C3, as the code has it: an answer that contains \<open>sorry\<close> anywhere is rejected by the
  gate of \<open>api_answer\<close> (the result is \<open>None\<close>) and by \<open>is_valid_app_answer\<close>, whatever
  else it holds. \<open>is_meaningful_answer\<close> has no test of phrases.
\<close>

theorem sorry_rejected:
  assumes "py_in (U ''sorry'') a"
  shows "(answer_semantic_question e q = Some a \<longrightarrow> fst (api_answer e q) = None)
         \<and> \<not> is_valid_app_answer e (Some a)"
proof -
  have k: "py_in (U ''sorry'') (py_lower (lower_table e) (py_strip a))" using assms by (rule sorry_kept)
  have api: "list_ex (\<lambda>x. py_in x (py_lower (lower_table e) (py_strip a))) api_failure_phrases"
    using k by (simp add: api_failure_phrases_def)
  have app: "list_ex (\<lambda>x. py_in x (py_lower (lower_table e) (py_strip a))) invalid_phrases"
    using k by (simp add: invalid_phrases_def)
  have "answer_semantic_question e q = Some a \<longrightarrow> fst (api_answer e q) = None"
    using api by (simp add: api_answer_def Let_def)
  moreover have "\<not> is_valid_app_answer e (Some a)"
    using app by (simp add: is_valid_app_answer_def Let_def)
  ultimately show ?thesis by blast
qed

text \<open>The apology of the remote table for \<open>fees\<close>.\<close>

theorem sorry_rejected_witness:
  "py_in (U ''sorry'') (U ''I am sorry, no fees data'')
   \<and> answer_semantic_question demo_env (U ''fees'') = Some (U ''I am sorry, no fees data'')
   \<and> fst (api_answer demo_env (U ''fees'')) = None
   \<and> \<not> is_valid_app_answer demo_env (Some (U ''I am sorry, no fees data''))"
  using sorry_rejected [OF in_sorry_fees, of demo_env "U ''fees''"] in_sorry_fees
    demo_semantic_fees
  by blast

section \<open>The composed response\<close>

text \<open>
  C4: for a query that is no greeting, when neither the answer of \<open>api_answer\<close> nor the
  answer of \<open>app.hostel_chatbot\<close> is accepted, \<open>unified_chatbot\<close> returns the fallback
  string.
\<close>

theorem no_accepted_answer_gives_fallback:
  assumes "\<not> is_greeting e q" and "nq = preprocess_text e q"
    and "\<not> api_accepted e nq" and "\<not> app_accepted e nq"
  shows "fst (unified_chatbot e q) =
           [10060] @ U '' Sorry, I couldn'' @ [39] @
           U ''t find an answer. Please ask more clearly or provide more details.''"
proof -
  have "filtered_api e nq = None" using assms(3) by (simp add: filtered_api_accepted)
  then have "response_parts (filtered_api e nq) (filtered_app e nq) = []"
    unfolding response_parts_filtered using assms(4) by simp
  then have "fst (unified_chatbot e q) = fallback"
    using assms(1,2) by (simp add: unified_chatbot_not_greeting compose_def)
  then show ?thesis by (simp only: fallback_def)
qed

text \<open>The query \<open>asdfgh\<close>, which neither module answers.\<close>

theorem no_accepted_answer_gives_fallback_witness:
  "\<not> is_greeting demo_env (U ''asdfgh'')
   \<and> \<not> api_accepted demo_env (preprocess_text demo_env (U ''asdfgh''))
   \<and> \<not> app_accepted demo_env (preprocess_text demo_env (U ''asdfgh''))
   \<and> fst (unified_chatbot demo_env (U ''asdfgh'')) =
           [10060] @ U '' Sorry, I couldn'' @ [39] @
           U ''t find an answer. Please ask more clearly or provide more details.''"
proof -
  have n: "U ''asdfgh'' = preprocess_text demo_env (U ''asdfgh'')"
    by (simp only: demo_preprocess lower_asdfgh)
  show ?thesis
    using no_accepted_answer_gives_fallback
      [OF not_greeting_asdfgh n demo_api_asdfgh demo_app_asdfgh]
      not_greeting_asdfgh demo_api_asdfgh demo_app_asdfgh
    unfolding demo_preprocess lower_asdfgh by blast
qed




text \<open>
  C6: an answer of stripped length at most 3 is rejected by \<open>is_meaningful_answer\<close>,
  with or without a query, and is neither the remote paragraph nor the local paragraph
  that \<open>unified_chatbot\<close> composes.
\<close>

theorem short_answer_rejected:
  assumes "length (py_strip a) \<le> 3"
  shows "\<not> is_meaningful_answer e (Some a) uq
         \<and> filtered_api e nq \<noteq> Some a
         \<and> (a \<noteq> [] \<longrightarrow> fst (filtered_app e nq) \<noteq> a)"
proof -
  have m: "\<And>u. \<not> is_meaningful_answer e (Some a) u"
    using assms meaningful_length [of e a] by fastforce
  have "filtered_api e nq \<noteq> Some a" using m filtered_api_Some [of e nq a] by blast
  moreover have "a \<noteq> [] \<longrightarrow> fst (filtered_app e nq) \<noteq> a"
    using m [of "Some nq"] by (auto simp: filtered_app_accepted app_accepted_def Let_def)
  ultimately show ?thesis using m by blast
qed

text \<open>The answer \<open>" ok "\<close>.\<close>

theorem short_answer_rejected_witness:
  "length (py_strip (U '' ok '')) \<le> 3
   \<and> U '' ok '' \<noteq> []
   \<and> \<not> is_meaningful_answer demo_env (Some (U '' ok '')) (Some (U ''ok''))
   \<and> filtered_api demo_env (U ''mess timing'') \<noteq> Some (U '' ok '')
   \<and> fst (filtered_app demo_env (U ''mess timing'')) \<noteq> U '' ok ''"
proof -
  have l: "length (py_strip (U '' ok '')) \<le> 3" unfolding strip_ok_padded by simp
  have n: "U '' ok '' \<noteq> []" by simp
  show ?thesis
    using short_answer_rejected [OF l, of demo_env "Some (U ''ok'')" "U ''mess timing''"] l n
    by blast
qed

section \<open>Chat turns\<close>

text \<open>
  C7: for a blank message \<open>chat\<close> returns the history as it is and an empty input box;
  otherwise it returns the history followed by a user turn with the message and an
  assistant turn with the output of \<open>unified_chatbot\<close>, and an empty input box. An absent
  history counts as the empty one.
\<close>

theorem chat_appends_two_turns:
  "fst (chat e m h) =
     (if py_strip m = [] then ((case h of None \<Rightarrow> [] | Some hs \<Rightarrow> hs), [])
      else ((case h of None \<Rightarrow> [] | Some hs \<Rightarrow> hs)
            @ [\<lparr>role = U ''user'', content = m\<rparr>,
               \<lparr>role = U ''assistant'', content = fst (unified_chatbot e m)\<rparr>], []))"
  by (simp add: chat_def Let_def split: prod.split)

text \<open>A blank message on a history of one turn, and \<open>hi\<close> on an absent history.\<close>

theorem chat_appends_two_turns_witness:
  "py_strip (U ''   '') = []
   \<and> fst (chat demo_env (U ''   '') (Some [\<lparr>role = U ''user'', content = U ''fees''\<rparr>])) =
       ([\<lparr>role = U ''user'', content = U ''fees''\<rparr>], [])
   \<and> py_strip (U ''hi'') \<noteq> []
   \<and> fst (chat demo_env (U ''hi'') None) =
       ([\<lparr>role = U ''user'', content = U ''hi''\<rparr>,
         \<lparr>role = U ''assistant'',
          content = [128075] @ U '' Hello! How can I help you with hostel information?''\<rparr>], [])"
proof -
  have a: "fst (chat demo_env (U ''   '') (Some [\<lparr>role = U ''user'', content = U ''fees''\<rparr>])) =
       ([\<lparr>role = U ''user'', content = U ''fees''\<rparr>], [])"
    using chat_appends_two_turns
      [of demo_env "U ''   ''" "Some [\<lparr>role = U ''user'', content = U ''fees''\<rparr>]"]
    unfolding strip_blank3 by simp
  have b: "fst (chat demo_env (U ''hi'') None) =
       ([\<lparr>role = U ''user'', content = U ''hi''\<rparr>,
         \<lparr>role = U ''assistant'',
          content = [128075] @ U '' Hello! How can I help you with hostel information?''\<rparr>], [])"
    using chat_appends_two_turns [of demo_env "U ''hi''" None] strip_hi
    unfolding demo_greeting_hi by simp
  from a b strip_blank3 strip_hi show ?thesis by blast
qed

section \<open>Order of the paragraphs\<close>

text \<open>
  C8: for a query that is no greeting with at least one accepted answer, the output is
  the join with a blank line of: the remote answer if kept, the local answer if kept,
  the link with its prefix if kept, the image with its prefix if kept, in this order.
\<close>

theorem accepted_parts_in_order:
  assumes "\<not> is_greeting e q" and "nq = preprocess_text e q"
    and "api_accepted e nq \<or> app_accepted e nq"
  shows "fst (unified_chatbot e q) =
           join [10, 10]
             ((case filtered_api e nq of None \<Rightarrow> [] | Some a \<Rightarrow> [a])
              @ (if fst (filtered_app e nq) \<noteq> [] then [fst (filtered_app e nq)] else [])
              @ (if fst (snd (filtered_app e nq)) \<noteq> []
                 then [[128279, 32] @ fst (snd (filtered_app e nq))] else [])
              @ (if snd (snd (filtered_app e nq)) \<noteq> []
                 then [[128444, 65039, 32] @ snd (snd (filtered_app e nq))] else []))"
proof -
  let ?parts = "response_parts (filtered_api e nq) (filtered_app e nq)"
  have ne: "?parts \<noteq> []"
  proof (cases "app_accepted e nq")
    case True
    then show ?thesis unfolding response_parts_filtered by simp
  next
    case False
    with assms(3) have acc: "api_accepted e nq" by blast
    have "fst (api_answer e nq) \<noteq> None"
    proof
      assume "fst (api_answer e nq) = None"
      with acc show False by (simp add: api_accepted_def meaningful_None)
    qed
    with acc have "filtered_api e nq \<noteq> None" by (simp add: filtered_api_accepted)
    then show ?thesis unfolding response_parts_filtered by (cases "filtered_api e nq") simp_all
  qed
  have flat: "?parts =
           (case filtered_api e nq of None \<Rightarrow> [] | Some a \<Rightarrow> [a])
              @ (if fst (filtered_app e nq) \<noteq> [] then [fst (filtered_app e nq)] else [])
              @ (if fst (snd (filtered_app e nq)) \<noteq> []
                 then [link_prefix @ fst (snd (filtered_app e nq))] else [])
              @ (if snd (snd (filtered_app e nq)) \<noteq> []
                 then [image_prefix @ snd (snd (filtered_app e nq))] else [])"
    unfolding response_parts_filtered using app_accepted_nonempty [of e nq]
    by (simp add: filtered_app_accepted)
  have "fst (unified_chatbot e q) = join paragraph_sep ?parts"
    using assms(1,2) ne by (simp add: unified_chatbot_not_greeting compose_def)
  then show ?thesis
    by (simp only: flat link_prefix_def image_prefix_def paragraph_sep_def)
qed

text \<open>The query \<open>Mess Timing\<close>: remote answer, local answer and link.\<close>

theorem accepted_parts_in_order_witness:
  "\<not> is_greeting demo_env (U ''Mess Timing'')
   \<and> U ''mess timing'' = preprocess_text demo_env (U ''Mess Timing'')
   \<and> (api_accepted demo_env (U ''mess timing'') \<or> app_accepted demo_env (U ''mess timing''))
   \<and> fst (unified_chatbot demo_env (U ''Mess Timing'')) =
        U ''Mess timing is 8 am'' @ [10, 10] @ U ''The mess opens at 8'' @ [10, 10]
        @ [128279, 32] @ U ''http://h/mess''"
proof -
  have n: "U ''mess timing'' = preprocess_text demo_env (U ''Mess Timing'')"
    by (simp only: demo_preprocess lower_Mess)
  have a: "api_accepted demo_env (U ''mess timing'') \<or> app_accepted demo_env (U ''mess timing'')"
    using demo_api_accepted_mess by blast
  have "fst (unified_chatbot demo_env (U ''Mess Timing'')) =
        U ''Mess timing is 8 am'' @ [10, 10] @ U ''The mess opens at 8'' @ [10, 10]
        @ [128279, 32] @ U ''http://h/mess''"
    using accepted_parts_in_order [OF not_greeting_Mess n a]
    unfolding demo_filtered_api_mess demo_filtered_app_mess by simp
  with not_greeting_Mess n a show ?thesis by blast
qed

text \<open>
  C9: the link and the image are paragraphs only behind an accepted local answer. The
  paragraphs are the remote answer if kept, followed, only when the local answer is
  accepted, by that answer, its link and its image; when it is not accepted the link and
  the image are emptied and the output is the remote answer alone or the fallback.
\<close>

theorem link_image_only_with_app_answer:
  "response_parts (filtered_api e nq) (filtered_app e nq) =
     (case filtered_api e nq of None \<Rightarrow> [] | Some a \<Rightarrow> [a]) @
     (if app_accepted e nq then
        [str_or_empty (fst (hostel_chatbot e nq))]
        @ (if str_or_empty (fst (snd (hostel_chatbot e nq))) \<noteq> []
           then [[128279, 32] @ str_or_empty (fst (snd (hostel_chatbot e nq)))] else [])
        @ (if str_or_empty (snd (snd (hostel_chatbot e nq))) \<noteq> []
           then [[128444, 65039, 32] @ str_or_empty (snd (snd (hostel_chatbot e nq)))] else [])
      else [])
   \<and> (\<not> is_greeting e q \<and> nq = preprocess_text e q \<and> \<not> app_accepted e nq \<longrightarrow>
        filtered_app e nq = ([], [], [])
        \<and> fst (unified_chatbot e q) =
            (case filtered_api e nq of None \<Rightarrow> fallback | Some a \<Rightarrow> a))"
proof -
  have p: "response_parts (filtered_api e nq) (filtered_app e nq) =
     (case filtered_api e nq of None \<Rightarrow> [] | Some a \<Rightarrow> [a]) @
     (if app_accepted e nq then
        [str_or_empty (fst (hostel_chatbot e nq))]
        @ (if str_or_empty (fst (snd (hostel_chatbot e nq))) \<noteq> []
           then [[128279, 32] @ str_or_empty (fst (snd (hostel_chatbot e nq)))] else [])
        @ (if str_or_empty (snd (snd (hostel_chatbot e nq))) \<noteq> []
           then [[128444, 65039, 32] @ str_or_empty (snd (snd (hostel_chatbot e nq)))] else [])
      else [])"
    using response_parts_filtered [of e nq] by (simp only: link_prefix_def image_prefix_def)
  have o: "\<not> is_greeting e q \<and> nq = preprocess_text e q \<and> \<not> app_accepted e nq \<longrightarrow>
        filtered_app e nq = ([], [], [])
        \<and> fst (unified_chatbot e q) =
            (case filtered_api e nq of None \<Rightarrow> fallback | Some a \<Rightarrow> a)"
  proof (intro impI, elim conjE)
    assume g: "\<not> is_greeting e q" and n: "nq = preprocess_text e q" and a: "\<not> app_accepted e nq"
    have fa: "filtered_app e nq = ([], [], [])" using a by (simp add: filtered_app_accepted)
    have ps: "response_parts (filtered_api e nq) (filtered_app e nq) =
                (case filtered_api e nq of None \<Rightarrow> [] | Some a \<Rightarrow> [a])"
      unfolding response_parts_filtered using a by simp
    have "fst (unified_chatbot e q) =
            compose (case filtered_api e nq of None \<Rightarrow> [] | Some a \<Rightarrow> [a])"
      using g n ps by (simp add: unified_chatbot_not_greeting)
    then have "fst (unified_chatbot e q) =
            (case filtered_api e nq of None \<Rightarrow> fallback | Some a \<Rightarrow> a)"
      by (cases "filtered_api e nq") (simp_all add: compose_def)
    with fa show "filtered_app e nq = ([], [], [])
        \<and> fst (unified_chatbot e q) =
            (case filtered_api e nq of None \<Rightarrow> fallback | Some a \<Rightarrow> a)" by blast
  qed
  from p o show ?thesis by blast
qed

text \<open>
  The query \<open>room rent\<close>: the local module apologises and gives a link and an image.
\<close>

theorem link_image_only_with_app_answer_witness:
  "\<not> is_greeting demo_env (U ''room rent'')
   \<and> U ''room rent'' = preprocess_text demo_env (U ''room rent'')
   \<and> \<not> app_accepted demo_env (U ''room rent'')
   \<and> hostel_chatbot demo_env (U ''room rent'') =
        (Some (U ''Sorry, I could not understand''), Some (U ''http://h/rent''),
         Some (U ''rent.png''))
   \<and> response_parts (filtered_api demo_env (U ''room rent''))
        (filtered_app demo_env (U ''room rent'')) = [U ''Room rent is 5000'']
   \<and> filtered_app demo_env (U ''room rent'') = ([], [], [])
   \<and> fst (unified_chatbot demo_env (U ''room rent'')) = U ''Room rent is 5000''"
proof -
  have n: "U ''room rent'' = preprocess_text demo_env (U ''room rent'')"
    by (simp only: demo_preprocess lower_rent)
  note t = link_image_only_with_app_answer [of demo_env "U ''room rent''" "U ''room rent''"]
  have p: "response_parts (filtered_api demo_env (U ''room rent''))
        (filtered_app demo_env (U ''room rent'')) = [U ''Room rent is 5000'']"
    using t demo_app_rejected_rent unfolding demo_filtered_api_rent by simp
  have o: "filtered_app demo_env (U ''room rent'') = ([], [], [])
     \<and> fst (unified_chatbot demo_env (U ''room rent'')) = U ''Room rent is 5000''"
    using t not_greeting_rent n demo_app_rejected_rent unfolding demo_filtered_api_rent
    by simp
  from p o not_greeting_rent n demo_app_rejected_rent demo_hostel_rent show ?thesis by blast
qed



end
